theory Spec2Isabelle
  imports Complex_Main "HOL-Library.Multiset" "HOL-Library.Monad_Syntax"
begin

section \<open>Values of the host language\<close>

subsection \<open>Strings\<close>

text \<open>
  A Python \<^verbatim>\<open>str\<close> is a sequence of Unicode code points; it is modelled as the list of
  its code points. \<open>ascii\<close> reads an ASCII literal of this file as such a string.
\<close>

type_synonym ustr = "nat list"

definition ascii :: "string \<Rightarrow> ustr" where
  "ascii s = map of_char s"

text \<open>
  The three Cyrillic literals of \<^verbatim>\<open>filter_applicants\<close> and the yes-token of the extractor,
  by code point: U+0412 U+0441 U+0435 (the "All" sentinel), U+0411 U+0412 U+0418 (the
  "BVI" sentinel), U+0412 U+042D (the entrance-exam category), U+0434 U+0430 ("yes").
\<close>

definition str_All :: ustr where
  "str_All = [1042, 1089, 1077]"

definition str_BVI :: ustr where
  "str_BVI = [1041, 1042, 1048]"

definition str_VE :: ustr where
  "str_VE = [1042, 1069]"

definition str_da :: ustr where
  "str_da = [1076, 1072]"

text \<open>
  \<^verbatim>\<open>str.strip()\<close> removes leading and trailing white space, the code points CPython's
  \<^verbatim>\<open>Py_UNICODE_ISSPACE\<close> accepts: U+0009..U+000D, U+001C..U+0020, U+0085, U+00A0, U+1680,
  U+2000..U+200A, U+2028, U+2029, U+202F, U+205F, U+3000.
\<close>

definition isspace :: "nat \<Rightarrow> bool" where
  "isspace c = ((9 \<le> c \<and> c \<le> 13) \<or> (28 \<le> c \<and> c \<le> 32) \<or> c = 133 \<or> c = 160 \<or> c = 5760
     \<or> (8192 \<le> c \<and> c \<le> 8202) \<or> c = 8232 \<or> c = 8233 \<or> c = 8239 \<or> c = 8287 \<or> c = 12288)"

definition strip :: "ustr \<Rightarrow> ustr" where
  "strip s = rev (dropWhile isspace (rev (dropWhile isspace s)))"

text \<open>\<^verbatim>\<open>needle in haystack\<close> on strings: \<open>needle\<close> occurs as a contiguous block.\<close>

fun str_in :: "ustr \<Rightarrow> ustr \<Rightarrow> bool" where
  "str_in needle [] = (needle = [])"
| "str_in needle (c # cs) = (if needle = take (length needle) (c # cs) then True else str_in needle cs)"

subsection \<open>Floats\<close>

text \<open>
  A Python \<^verbatim>\<open>float\<close> is a finite double, an infinity or a NaN. The code only compares
  floats, and comparing two doubles compares the real numbers they stand for, so a finite
  float is modelled by its real value (\<open>-0.0\<close> and \<open>0.0\<close>, which compare equal, are both
  \<open>Finite 0\<close>). Every comparison with a NaN is false.
\<close>

datatype pyfloat = Finite real | PosInf | NegInf | NaN

fun float_lt :: "pyfloat \<Rightarrow> pyfloat \<Rightarrow> bool" where
  "float_lt NaN y = False"
| "float_lt x NaN = False"
| "float_lt (Finite a) (Finite b) = (a < b)"
| "float_lt (Finite a) PosInf = True"
| "float_lt (Finite a) NegInf = False"
| "float_lt PosInf y = False"
| "float_lt NegInf NegInf = False"
| "float_lt NegInf y = True"

fun float_eq :: "pyfloat \<Rightarrow> pyfloat \<Rightarrow> bool" where
  "float_eq NaN y = False"
| "float_eq x NaN = False"
| "float_eq (Finite a) (Finite b) = (a = b)"
| "float_eq PosInf PosInf = True"
| "float_eq NegInf NegInf = True"
| "float_eq x y = False"

definition float_le :: "pyfloat \<Rightarrow> pyfloat \<Rightarrow> bool" where
  "float_le x y = (float_lt x y \<or> float_eq x y)"

subsection \<open>Built-in functions taken as parameters\<close>

text \<open>
  \<^verbatim>\<open>str.lower()\<close> (Unicode lower-casing), \<^verbatim>\<open>float(s)\<close> and \<^verbatim>\<open>int(s)\<close> are built-ins of the
  interpreter. They are parameters of the model: \<open>str_float s = None\<close> and
  \<open>str_int s = None\<close> stand for the \<^verbatim>\<open>ValueError\<close> the built-in raises on a string it
  cannot parse.
\<close>

record builtins =
  str_lower :: "ustr \<Rightarrow> ustr"
  str_float :: "ustr \<Rightarrow> pyfloat option"
  str_int :: "ustr \<Rightarrow> int option"

text \<open>
  One instance, used to run the model on examples: it lower-cases the ASCII letters and
  parses the strings made of ASCII digits only, as the built-ins do on such strings,
  and rejects every other string.
\<close>

definition digits_value :: "ustr \<Rightarrow> nat option" where
  "digits_value s =
     (if s \<noteq> [] \<and> list_all (\<lambda>c. 48 \<le> c \<and> c \<le> 57) s
      then Some (foldl (\<lambda>n c. 10 * n + (c - 48)) 0 s) else None)"

definition ascii_builtins :: builtins where
  "ascii_builtins =
     \<lparr> str_lower = map (\<lambda>c. if 65 \<le> c \<and> c \<le> 90 then c + 32 else c),
       str_float = (\<lambda>s. map_option (\<lambda>n. Finite (real n)) (digits_value s)),
       str_int = (\<lambda>s. map_option int (digits_value s)) \<rparr>"

section \<open>Record model\<close>

text \<open>
  The dataclass \<^verbatim>\<open>Applicant\<close> of \<^verbatim>\<open>main.py\<close> has eleven fields; the one of \<^verbatim>\<open>app.py\<close> has
  the same eleven and \<^verbatim>\<open>filtered_position\<close> (default 0).
\<close>

record main_applicant =
  position :: int
  application_id :: ustr
  exam_type :: ustr
  exam_id :: int
  exam_score :: pyfloat
  total_score :: pyfloat
  average_score :: pyfloat
  priority :: int
  ovp :: bool
  vpp :: bool
  consent :: bool

record applicant = main_applicant +
  filtered_position :: int

text \<open>
  \<^verbatim>\<open>filter_applicants\<close> of \<^verbatim>\<open>app.py\<close> assigns \<^verbatim>\<open>filtered_position\<close> on the objects of the list it
  is given, so the objects live in a store and a list holds references to them.
\<close>

type_synonym ref = nat

type_synonym heap = "ref \<Rightarrow> applicant"

datatype cause = RequestException | HTTPError nat | NoCardsFound | CardError

datatype error = TypeError | ParsingError cause

section \<open>Filter engine (\<^verbatim>\<open>app.py\<close>, \<^verbatim>\<open>filter_applicants\<close>)\<close>

text \<open>The keyword arguments of \<^verbatim>\<open>filter_applicants\<close>; \<open>None\<close> is Python's \<^verbatim>\<open>None\<close>.\<close>

record filter_args =
  arg_ovp :: "bool option"
  arg_vpp :: "bool option"
  arg_consent :: "bool option"
  arg_search_id :: "ustr option"
  arg_exam_type :: "ustr option"
  arg_stats_id :: "ustr option"
  arg_average_score_op :: "ustr option"
  arg_average_score_val :: "ustr option"
  arg_exam_score_op :: "ustr option"
  arg_exam_score_val :: "ustr option"
  arg_total_score_op :: "ustr option"
  arg_total_score_val :: "ustr option"
  arg_priority_min :: "int option"
  arg_priority_max :: "int option"

text \<open>The defaults of the signature: every argument \<^verbatim>\<open>None\<close>.\<close>

definition default_args :: filter_args where
  "default_args =
     \<lparr> arg_ovp = None, arg_vpp = None, arg_consent = None, arg_search_id = None,
       arg_exam_type = None, arg_stats_id = None,
       arg_average_score_op = None, arg_average_score_val = None,
       arg_exam_score_op = None, arg_exam_score_val = None,
       arg_total_score_op = None, arg_total_score_val = None,
       arg_priority_min = None, arg_priority_max = None \<rparr>"

text \<open>The inner function \<^verbatim>\<open>cmp(value, op, ref)\<close>: an unknown operator compares true.\<close>

definition cmp :: "pyfloat \<Rightarrow> ustr \<Rightarrow> pyfloat \<Rightarrow> bool" where
  "cmp v opr r =
     (if opr = ascii ''ge'' then float_le r v
      else if opr = ascii ''g'' then float_lt r v
      else if opr = ascii ''le'' then float_le v r
      else if opr = ascii ''l'' then float_lt v r
      else if opr = ascii ''eq'' then float_eq v r
      else True)"

text \<open>Lines 97-102: the three tri-state flags.\<close>

definition filter_flag :: "heap \<Rightarrow> (applicant \<Rightarrow> bool) \<Rightarrow> bool option \<Rightarrow> ref list \<Rightarrow> ref list" where
  "filter_flag h field want filtered =
     (case want of None \<Rightarrow> filtered | Some b \<Rightarrow> filter (\<lambda>a. field (h a) = b) filtered)"

text \<open>Lines 103-104: the search string, stripped and lower-cased, inside the lower-cased id.\<close>

definition filter_search :: "builtins \<Rightarrow> heap \<Rightarrow> ustr option \<Rightarrow> ref list \<Rightarrow> ref list" where
  "filter_search B h search_id filtered =
     (case search_id of
        None \<Rightarrow> filtered
      | Some s \<Rightarrow>
          if s \<noteq> [] \<and> strip s \<noteq> []
          then filter (\<lambda>a. str_in (str_lower B (strip s)) (str_lower B (application_id (h a)))) filtered
          else filtered)"

text \<open>Lines 105-109: the exam-type selector with its two sentinels.\<close>

definition filter_exam_type :: "heap \<Rightarrow> ustr option \<Rightarrow> ref list \<Rightarrow> ref list" where
  "filter_exam_type h exam_type_arg filtered =
     (case exam_type_arg of
        None \<Rightarrow> filtered
      | Some e \<Rightarrow>
          if e \<noteq> [] \<and> e \<noteq> str_All \<and> strip e \<noteq> []
          then (if e = str_BVI
                then filter (\<lambda>a. exam_type (h a) \<noteq> str_VE) filtered
                else filter (\<lambda>a. exam_type (h a) = e) filtered)
          else filtered)"

text \<open>
  Line 111: \<^verbatim>\<open>min(priority_min, priority_max), max(priority_min, priority_max)\<close>. The
  built-ins compare their two arguments with \<^verbatim>\<open><\<close> and \<^verbatim>\<open>>\<close>, which raises \<^verbatim>\<open>TypeError\<close> as
  soon as one of them is \<^verbatim>\<open>None\<close> (also when both are).
\<close>

fun py_min :: "int option \<Rightarrow> int option \<Rightarrow> error + int option" where
  "py_min (Some a) (Some b) = Inr (Some (min a b))"
| "py_min a b = Inl TypeError"

fun py_max :: "int option \<Rightarrow> int option \<Rightarrow> error + int option" where
  "py_max (Some a) (Some b) = Inr (Some (max a b))"
| "py_max a b = Inl TypeError"

text \<open>Lines 113-116: the two bounds, each guarded by \<^verbatim>\<open>is not None\<close>.\<close>

definition filter_priority :: "heap \<Rightarrow> int option \<Rightarrow> int option \<Rightarrow> ref list \<Rightarrow> ref list" where
  "filter_priority h priority_min priority_max filtered =
     (let filtered = (case priority_min of None \<Rightarrow> filtered
                      | Some lo \<Rightarrow> filter (\<lambda>a. priority (h a) \<ge> lo) filtered)
      in (case priority_max of None \<Rightarrow> filtered
          | Some hi \<Rightarrow> filter (\<lambda>a. priority (h a) \<le> hi) filtered))"

text \<open>
  Lines 118-137, once per score: when operator and value are both true (neither \<^verbatim>\<open>None\<close>
  nor empty) the value is parsed; a value that does not parse raises inside the \<^verbatim>\<open>try\<close>,
  whose handler is \<^verbatim>\<open>pass\<close>.
\<close>

definition filter_score ::
  "builtins \<Rightarrow> heap \<Rightarrow> (applicant \<Rightarrow> pyfloat) \<Rightarrow> ustr option \<Rightarrow> ustr option \<Rightarrow> ref list \<Rightarrow> ref list" where
  "filter_score B h field score_op score_val filtered =
     (case score_op of
        None \<Rightarrow> filtered
      | Some opr \<Rightarrow>
          (case score_val of
             None \<Rightarrow> filtered
           | Some s \<Rightarrow>
               if opr \<noteq> [] \<and> s \<noteq> []
               then (case str_float B s of
                       None \<Rightarrow> filtered
                     | Some val \<Rightarrow> filter (\<lambda>a. cmp (field (h a)) opr val) filtered)
               else filtered))"

text \<open>Lines 141-142: the loop over \<^verbatim>\<open>enumerate(filtered_sorted, 1)\<close>, writing into the objects.\<close>

fun assign_positions :: "heap \<Rightarrow> int \<Rightarrow> ref list \<Rightarrow> heap" where
  "assign_positions h idx [] = h"
| "assign_positions h idx (a # rest) =
     assign_positions (h(a := (h a)\<lparr>filtered_position := idx\<rparr>)) (idx + 1) rest"

text \<open>Line 150: \<^verbatim>\<open>next((i for i, a in enumerate(xs) if ...), None)\<close>, the first index or \<^verbatim>\<open>None\<close>.\<close>

fun first_index :: "('a \<Rightarrow> bool) \<Rightarrow> 'a list \<Rightarrow> nat option" where
  "first_index P [] = None"
| "first_index P (a # rest) = (if P a then Some 0 else map_option Suc (first_index P rest))"

text \<open>
  The \<^verbatim>\<open>stats\<close> dictionary: empty, \<^verbatim>\<open>{"not_found": True}\<close>, or the five entries of the cohort.
\<close>

datatype stats_dict =
  NoStats
  | NotFound
  | Cohort (total_before_me: nat) (bvi_before: nat) (ovp_before: nat) (consent_before: nat)
      (my_row: ref)

text \<open>Lines 145-162: the cohort before the target id; it returns \<^verbatim>\<open>stats\<close> and \<^verbatim>\<open>stats_list\<close>.\<close>

definition cohort_stats :: "heap \<Rightarrow> ustr option \<Rightarrow> ref list \<Rightarrow> stats_dict \<times> ref list" where
  "cohort_stats h stats_id filtered_sorted =
     (case stats_id of
        None \<Rightarrow> (NoStats, [])
      | Some s \<Rightarrow>
          if s \<noteq> [] \<and> strip s \<noteq> []
          then (case first_index (\<lambda>a. application_id (h a) = strip s) filtered_sorted of
                  Some idx_myself \<Rightarrow>
                    (let before_me = take idx_myself filtered_sorted
                     in (Cohort (length before_me)
                           (length (filter (\<lambda>a. exam_type (h a) \<noteq> str_VE) before_me))
                           (length (filter (\<lambda>a. ovp (h a)) before_me))
                           (length (filter (\<lambda>a. consent (h a)) before_me))
                           (filtered_sorted ! idx_myself),
                         before_me))
                | None \<Rightarrow> (NotFound, []))
          else (NoStats, []))"

record filter_result =
  applicants :: "ref list"
  total_count :: nat
  filtered_count :: nat
  stats :: stats_dict
  stats_list :: "ref list"

text \<open>
  \<^verbatim>\<open>filter_applicants\<close>, lines 81-170. It returns the dictionary or the exception raised,
  and the store it leaves. The exception of line 111 is raised before any object is
  written.
\<close>

definition filter_applicants ::
  "builtins \<Rightarrow> heap \<Rightarrow> ref list \<Rightarrow> filter_args \<Rightarrow> (error + filter_result) \<times> heap" where
  "filter_applicants B h applicants_in args =
     (let filtered = applicants_in;
          filtered = filter_flag h ovp (arg_ovp args) filtered;
          filtered = filter_flag h vpp (arg_vpp args) filtered;
          filtered = filter_flag h consent (arg_consent args) filtered;
          filtered = filter_search B h (arg_search_id args) filtered;
          filtered = filter_exam_type h (arg_exam_type args) filtered
      in case py_min (arg_priority_min args) (arg_priority_max args) of
           Inl e \<Rightarrow> (Inl e, h)
         | Inr priority_min \<Rightarrow>
        (case py_max (arg_priority_min args) (arg_priority_max args) of
           Inl e \<Rightarrow> (Inl e, h)
         | Inr priority_max \<Rightarrow>
        (let filtered = filter_priority h priority_min priority_max filtered;
             filtered = filter_score B h average_score
                          (arg_average_score_op args) (arg_average_score_val args) filtered;
             filtered = filter_score B h exam_score
                          (arg_exam_score_op args) (arg_exam_score_val args) filtered;
             filtered = filter_score B h total_score
                          (arg_total_score_op args) (arg_total_score_val args) filtered;
             filtered_sorted = sort_key (\<lambda>a. position (h a)) filtered;
             h' = assign_positions h 1 filtered_sorted;
             (stats_d, stats_l) = cohort_stats h' (arg_stats_id args) filtered_sorted
         in (Inr \<lparr> applicants = filtered_sorted,
                    total_count = length applicants_in,
                    filtered_count = length filtered,
                    stats = stats_d,
                    stats_list = stats_l \<rparr>, h'))))"

section \<open>Extractor\<close>

text \<open>
  The extractor reads a page through \<^verbatim>\<open>requests\<close> and \<^verbatim>\<open>BeautifulSoup\<close>. What it sees of
  the network is an outcome per URL: the request raises, or a response arrives with a
  status code and the card blocks \<^verbatim>\<open>soup.select('.RatingPage_table__item__qMY0F')\<close> finds
  in its body. What it sees of a card is the text each of its eleven queries yields,
  \<open>None\<close> where the query or the attribute access after it raises (no such element):
  \<open>position_text\<close> is \<^verbatim>\<open>position_block.contents[0]\<close>, \<open>application_id_text\<close> is
  \<^verbatim>\<open>position_block.find('span').text\<close>, the others are the \<^verbatim>\<open>.text\<close> of the span that
  \<^verbatim>\<open>select_one\<close> finds after the label.
\<close>

record card =
  position_text :: "ustr option"
  application_id_text :: "ustr option"
  exam_type_text :: "ustr option"
  exam_id_text :: "ustr option"
  exam_score_text :: "ustr option"
  total_score_text :: "ustr option"
  average_score_text :: "ustr option"
  priority_text :: "ustr option"
  ovp_text :: "ustr option"
  vpp_text :: "ustr option"
  consent_text :: "ustr option"

datatype http_outcome = ConnectionFailed | Response (status_code: nat) (cards: "card list")

type_synonym web = "ustr \<Rightarrow> http_outcome"

text \<open>\<^verbatim>\<open>text.strip().lower() == 'da'\<close> with the Cyrillic yes-token.\<close>

definition is_yes :: "builtins \<Rightarrow> ustr \<Rightarrow> bool" where
  "is_yes B t = (str_lower B (strip t) = str_da)"

subsection \<open>\<^verbatim>\<open>app.py\<close>\<close>

text \<open>
  Lines 184-203, the body of the \<^verbatim>\<open>try\<close> inside the loop: \<open>None\<close> when any step raises.
\<close>

definition parse_card :: "builtins \<Rightarrow> card \<Rightarrow> applicant option" where
  "parse_card B c = do {
     t_position \<leftarrow> position_text c;
     position_v \<leftarrow> str_int B (strip t_position);
     t_id \<leftarrow> application_id_text c;
     t_exam_type \<leftarrow> exam_type_text c;
     t_exam_id \<leftarrow> exam_id_text c;
     exam_id_v \<leftarrow> str_int B t_exam_id;
     t_exam_score \<leftarrow> exam_score_text c;
     exam_score_v \<leftarrow> str_float B t_exam_score;
     t_total_score \<leftarrow> total_score_text c;
     total_score_v \<leftarrow> str_float B t_total_score;
     t_average_score \<leftarrow> average_score_text c;
     average_score_v \<leftarrow> str_float B t_average_score;
     t_priority \<leftarrow> priority_text c;
     priority_v \<leftarrow> str_int B t_priority;
     t_ovp \<leftarrow> ovp_text c;
     t_vpp \<leftarrow> vpp_text c;
     t_consent \<leftarrow> consent_text c;
     Some \<lparr> position = position_v, application_id = strip t_id, exam_type = strip t_exam_type,
            exam_id = exam_id_v, exam_score = exam_score_v, total_score = total_score_v,
            average_score = average_score_v, priority = priority_v,
            ovp = is_yes B t_ovp, vpp = is_yes B t_vpp, consent = is_yes B t_consent,
            filtered_position = 0 \<rparr>
   }"

text \<open>
  Lines 181-206, the loop: a card that parses is appended, a card that raises is
  reported on standard output and skipped.
\<close>

fun collect_cards :: "builtins \<Rightarrow> card list \<Rightarrow> applicant list \<Rightarrow> applicant list" where
  "collect_cards B [] applicants_acc = applicants_acc"
| "collect_cards B (c # rest) applicants_acc =
     (case parse_card B c of
        Some a \<Rightarrow> collect_cards B rest (applicants_acc @ [a])
      | None \<Rightarrow> collect_cards B rest applicants_acc)"

text \<open>
  \<^verbatim>\<open>parse_itmo_rating\<close>, lines 174-210. \<^verbatim>\<open>raise_for_status\<close> raises on the status codes 400
  to 599. Every exception leaves as \<^verbatim>\<open>Exception("... : " + str(e))\<close>, here \<open>ParsingError\<close>
  with the cause. There is no test on the number of cards.
\<close>

definition parse_itmo_rating :: "builtins \<Rightarrow> web \<Rightarrow> ustr \<Rightarrow> error + applicant list" where
  "parse_itmo_rating B net url =
     (case net url of
        ConnectionFailed \<Rightarrow> Inl (ParsingError RequestException)
      | Response code cs \<Rightarrow>
          if 400 \<le> code \<and> code < 600 then Inl (ParsingError (HTTPError code))
          else Inr (collect_cards B cs []))"

subsection \<open>\<^verbatim>\<open>main.py\<close>\<close>

text \<open>
  \<^verbatim>\<open>parse_applicant_card\<close>, lines 47-87: no handler of its own; a missing average-score
  span gives \<open>0.0\<close>.
\<close>

definition main_parse_applicant_card :: "builtins \<Rightarrow> card \<Rightarrow> main_applicant option" where
  "main_parse_applicant_card B c = do {
     t_position \<leftarrow> position_text c;
     position_v \<leftarrow> str_int B (strip t_position);
     t_id \<leftarrow> application_id_text c;
     t_priority \<leftarrow> priority_text c;
     priority_v \<leftarrow> str_int B t_priority;
     t_exam_type \<leftarrow> exam_type_text c;
     t_exam_id \<leftarrow> exam_id_text c;
     exam_id_v \<leftarrow> str_int B t_exam_id;
     t_exam_score \<leftarrow> exam_score_text c;
     exam_score_v \<leftarrow> str_float B t_exam_score;
     t_total_score \<leftarrow> total_score_text c;
     total_score_v \<leftarrow> str_float B t_total_score;
     average_score_v \<leftarrow> (case average_score_text c of
                           None \<Rightarrow> Some (Finite 0)
                         | Some t \<Rightarrow> str_float B t);
     t_ovp \<leftarrow> ovp_text c;
     t_vpp \<leftarrow> vpp_text c;
     t_consent \<leftarrow> consent_text c;
     Some \<lparr> position = position_v, application_id = strip t_id, exam_type = strip t_exam_type,
            exam_id = exam_id_v, exam_score = exam_score_v, total_score = total_score_v,
            average_score = average_score_v, priority = priority_v,
            ovp = is_yes B t_ovp, vpp = is_yes B t_vpp, consent = is_yes B t_consent \<rparr>
   }"

text \<open>Line 111, the list comprehension: the first card that raises ends it.\<close>

fun main_parse_cards :: "builtins \<Rightarrow> card list \<Rightarrow> main_applicant list option" where
  "main_parse_cards B [] = Some []"
| "main_parse_cards B (c # rest) =
     (case main_parse_applicant_card B c of
        None \<Rightarrow> None
      | Some a \<Rightarrow> map_option ((#) a) (main_parse_cards B rest))"

text \<open>\<^verbatim>\<open>filter_applicants\<close> of \<^verbatim>\<open>main.py\<close>, lines 22-44: three flags, then the sort.\<close>

definition main_filter_applicants ::
  "main_applicant list \<Rightarrow> bool option \<Rightarrow> bool option \<Rightarrow> bool option \<Rightarrow> main_applicant list" where
  "main_filter_applicants applicants_in ovp_arg vpp_arg consent_arg =
     (let filtered = applicants_in;
          filtered = (case ovp_arg of None \<Rightarrow> filtered | Some b \<Rightarrow> filter (\<lambda>a. ovp a = b) filtered);
          filtered = (case vpp_arg of None \<Rightarrow> filtered | Some b \<Rightarrow> filter (\<lambda>a. vpp a = b) filtered);
          filtered = (case consent_arg of None \<Rightarrow> filtered
                      | Some b \<Rightarrow> filter (\<lambda>a. consent a = b) filtered)
      in sort_key position filtered)"

text \<open>
  \<^verbatim>\<open>parse_itmo_rating\<close> of \<^verbatim>\<open>main.py\<close>, lines 90-125; \<open>list_ex (\<lambda>b. b)\<close> is \<^verbatim>\<open>any\<close> of a list.
\<close>

definition main_parse_itmo_rating ::
  "builtins \<Rightarrow> web \<Rightarrow> ustr \<Rightarrow> bool option \<Rightarrow> bool option \<Rightarrow> bool option
     \<Rightarrow> error + main_applicant list" where
  "main_parse_itmo_rating B net url ovp_filter vpp_filter consent_filter =
     (case net url of
        ConnectionFailed \<Rightarrow> Inl (ParsingError RequestException)
      | Response code cs \<Rightarrow>
          if 400 \<le> code \<and> code < 600 then Inl (ParsingError (HTTPError code))
          else if cs = [] then Inl (ParsingError NoCardsFound)
          else (case main_parse_cards B cs of
                  None \<Rightarrow> Inl (ParsingError CardError)
                | Some parsed \<Rightarrow>
                    if list_ex (\<lambda>b. b)
                         [ovp_filter \<noteq> None, vpp_filter \<noteq> None, consent_filter \<noteq> None]
                    then Inr (main_filter_applicants parsed ovp_filter vpp_filter consent_filter)
                    else Inr parsed))"

section \<open>Cache (\<^verbatim>\<open>app.py\<close>)\<close>

text \<open>
  The state the two cache functions touch: the dictionary \<^verbatim>\<open>app_data['cached_applicants']\<close>
  and the work queue of the \<^verbatim>\<open>ThreadPoolExecutor\<close>, as the list of URLs whose
  \<^verbatim>\<open>parse_and_cache\<close> has been submitted and not yet run. The clock reading \<^verbatim>\<open>time.time()\<close>
  is an argument. A cached list is modelled by the records it holds.
\<close>

record cache_entry =
  ts :: real
  data :: "applicant list"

record app_state =
  cached_applicants :: "ustr \<Rightarrow> cache_entry option"
  submitted :: "ustr list"

definition CACHE_TTL :: real where
  "CACHE_TTL = 5 * 60"

text \<open>\<^verbatim>\<open>parse_and_cache\<close>, lines 11-16: the handler prints and returns.\<close>

definition parse_and_cache :: "builtins \<Rightarrow> web \<Rightarrow> real \<Rightarrow> ustr \<Rightarrow> app_state \<Rightarrow> app_state" where
  "parse_and_cache B net clock url st =
     (case parse_itmo_rating B net url of
        Inr parsed \<Rightarrow>
          st\<lparr>cached_applicants := (cached_applicants st)(url \<mapsto> \<lparr>ts = clock, data = parsed\<rparr>)\<rparr>
      | Inl e \<Rightarrow> st)"

text \<open>\<^verbatim>\<open>get_applicants_with_cache\<close>, lines 18-28.\<close>

definition get_applicants_with_cache ::
  "builtins \<Rightarrow> web \<Rightarrow> real \<Rightarrow> ustr \<Rightarrow> app_state \<Rightarrow> (error + applicant list) \<times> app_state" where
  "get_applicants_with_cache B net now url st =
     (case cached_applicants st url of
        Some entry \<Rightarrow>
          if now - ts entry < CACHE_TTL then (Inr (data entry), st)
          else (Inr (data entry), st\<lparr>submitted := submitted st @ [url]\<rparr>)
      | None \<Rightarrow>
          (case parse_itmo_rating B net url of
             Inl e \<Rightarrow> (Inl e, st)
           | Inr parsed \<Rightarrow>
               (Inr parsed,
                st\<lparr>cached_applicants := (cached_applicants st)(url \<mapsto> \<lparr>ts = now, data = parsed\<rparr>)\<rparr>)))"

text \<open>A worker of the executor takes the oldest submitted task and runs it.\<close>

definition run_submitted :: "builtins \<Rightarrow> web \<Rightarrow> real \<Rightarrow> app_state \<Rightarrow> app_state" where
  "run_submitted B net clock st =
     (case submitted st of
        [] \<Rightarrow> st
      | url # rest \<Rightarrow> parse_and_cache B net clock url (st\<lparr>submitted := rest\<rparr>))"

section \<open>The predicates of a filter specification\<close>

text \<open>
  What it means for a record to satisfy a specification, predicate by predicate, in the
  words of the specification: a tri-state flag that is set must equal the record's flag;
  a search string that is not blank after trimming must occur, case-insensitively, in
  the application id; the exam-type selector constrains nothing when it is blank or the
  "All" sentinel, excludes the entrance-exam category when it is the "BVI" sentinel, and
  otherwise must equal the record's exam type; a score comparison applies when operator
  and value are both given and the value parses; the priority must lie in the inclusive
  range between the two bounds taken in increasing order, a bound that is not set
  constraining nothing.
\<close>

definition flag_ok :: "bool option \<Rightarrow> bool \<Rightarrow> bool" where
  "flag_ok want b = (case want of None \<Rightarrow> True | Some w \<Rightarrow> b = w)"

definition search_ok :: "builtins \<Rightarrow> ustr option \<Rightarrow> ustr \<Rightarrow> bool" where
  "search_ok B search aid =
     (case search of
        None \<Rightarrow> True
      | Some s \<Rightarrow> if strip s = [] then True else str_in (str_lower B (strip s)) (str_lower B aid))"

definition exam_type_ok :: "ustr option \<Rightarrow> ustr \<Rightarrow> bool" where
  "exam_type_ok selector et =
     (case selector of
        None \<Rightarrow> True
      | Some e \<Rightarrow>
          if strip e = [] then True
          else if e = str_All then True
          else if e = str_BVI then et \<noteq> str_VE
          else et = e)"

definition score_ok :: "builtins \<Rightarrow> ustr option \<Rightarrow> ustr option \<Rightarrow> pyfloat \<Rightarrow> bool" where
  "score_ok B score_op score_val v =
     (case score_op of
        None \<Rightarrow> True
      | Some opr \<Rightarrow>
          (case score_val of
             None \<Rightarrow> True
           | Some s \<Rightarrow>
               if opr = [] then True
               else if s = [] then True
               else (case str_float B s of None \<Rightarrow> True | Some r \<Rightarrow> cmp v opr r)))"

definition priority_ok :: "int option \<Rightarrow> int option \<Rightarrow> int \<Rightarrow> bool" where
  "priority_ok lo hi p =
     (case lo of
        None \<Rightarrow> (case hi of None \<Rightarrow> True | Some b \<Rightarrow> p \<le> b)
      | Some a \<Rightarrow> (case hi of None \<Rightarrow> a \<le> p | Some b \<Rightarrow> min a b \<le> p \<and> p \<le> max a b))"

definition matches :: "builtins \<Rightarrow> filter_args \<Rightarrow> applicant \<Rightarrow> bool" where
  "matches B args a =
     (flag_ok (arg_ovp args) (ovp a) \<and> flag_ok (arg_vpp args) (vpp a)
      \<and> flag_ok (arg_consent args) (consent a)
      \<and> search_ok B (arg_search_id args) (application_id a)
      \<and> exam_type_ok (arg_exam_type args) (exam_type a)
      \<and> priority_ok (arg_priority_min args) (arg_priority_max args) (priority a)
      \<and> score_ok B (arg_average_score_op args) (arg_average_score_val args) (average_score a)
      \<and> score_ok B (arg_exam_score_op args) (arg_exam_score_val args) (exam_score a)
      \<and> score_ok B (arg_total_score_op args) (arg_total_score_val args) (total_score a))"

text \<open>The records that satisfy the specification, in the order the sort gives them.\<close>

definition survivors :: "builtins \<Rightarrow> heap \<Rightarrow> filter_args \<Rightarrow> ref list \<Rightarrow> ref list" where
  "survivors B h args xs = sort_key (\<lambda>a. position (h a)) (filter (\<lambda>a. matches B args (h a)) xs)"

section \<open>Example inputs\<close>

text \<open>
  Three records in a store, at the references 0, 1 and 2, with the ids "1", "2" and "3";
  the first is in the entrance-exam category.
\<close>

definition rec_a :: applicant where
  "rec_a = \<lparr> position = 1, application_id = ascii ''1'', exam_type = str_VE, exam_id = 0,
             exam_score = Finite 90, total_score = Finite 95, average_score = Finite 4,
             priority = 3, ovp = True, vpp = False, consent = False, filtered_position = 0 \<rparr>"

definition rec_b :: applicant where
  "rec_b = \<lparr> position = 2, application_id = ascii ''2'', exam_type = ascii ''Olymp'', exam_id = 5,
             exam_score = Finite 80, total_score = Finite 85, average_score = Finite 5,
             priority = 10, ovp = False, vpp = True, consent = True, filtered_position = 0 \<rparr>"

definition rec_c :: applicant where
  "rec_c = \<lparr> position = 3, application_id = ascii ''3'', exam_type = ascii ''Olymp'', exam_id = 0,
             exam_score = Finite 70, total_score = Finite 70, average_score = Finite 3,
             priority = 5, ovp = True, vpp = True, consent = True, filtered_position = 9 \<rparr>"

definition heap_abc :: heap where
  "heap_abc = (\<lambda>_. rec_a)(1 := rec_b, 2 := rec_c)"

text \<open>The priority range given as min = 10, max = 3, everything else at its default.\<close>

definition args_10_3 :: filter_args where
  "args_10_3 = default_args\<lparr>arg_priority_min := Some 10, arg_priority_max := Some 3\<rparr>"

text \<open>A card every field of which parses under \<open>ascii_builtins\<close>, at a given position.\<close>

definition card_at :: "string \<Rightarrow> card" where
  "card_at p =
     \<lparr> position_text = Some (ascii p), application_id_text = Some (ascii ''77''),
       exam_type_text = Some str_VE, exam_id_text = Some (ascii ''3''),
       exam_score_text = Some (ascii ''90''), total_score_text = Some (ascii ''93''),
       average_score_text = Some (ascii ''4''), priority_text = Some (ascii ''1''),
       ovp_text = Some str_da, vpp_text = Some (ascii ''no''), consent_text = Some str_da \<rparr>"

definition rec_at :: "int \<Rightarrow> applicant" where
  "rec_at p =
     \<lparr> position = p, application_id = ascii ''77'', exam_type = str_VE, exam_id = 3,
       exam_score = Finite 90, total_score = Finite 93, average_score = Finite 4,
       priority = 1, ovp = True, vpp = False, consent = True, filtered_position = 0 \<rparr>"

text \<open>A card whose priority field is not a number.\<close>

definition bad_card :: card where
  "bad_card = (card_at ''4'')\<lparr>priority_text := Some (ascii ''abc'')\<rparr>"

text \<open>Five well-formed cards with a malformed one among them.\<close>

definition six_cards :: "card list" where
  "six_cards = [card_at ''1'', card_at ''2'', card_at ''3'', bad_card, card_at ''5'', card_at ''6'']"


text \<open>What the filter returns on the three records, given in the order 2, 1, 0.\<close>

definition res_abc :: filter_result where
  "res_abc = \<lparr> applicants = [0, 1, 2], total_count = 3, filtered_count = 3, stats = NoStats,
               stats_list = [] \<rparr>"

text \<open>The range 4..10, which excludes the record at reference 0 (priority 3).\<close>

definition args_4_10 :: filter_args where
  "args_4_10 = default_args\<lparr>arg_priority_min := Some 4, arg_priority_max := Some 10\<rparr>"

definition res_bc :: filter_result where
  "res_bc = \<lparr> applicants = [1, 2], total_count = 3, filtered_count = 2, stats = NoStats,
              stats_list = [] \<rparr>"

text \<open>The range 10, 3 with a target id for the cohort statistics.\<close>

definition args_target :: "string \<Rightarrow> filter_args" where
  "args_target t = args_10_3\<lparr>arg_stats_id := Some (ascii t)\<rparr>"

text \<open>A network on which every request is answered with status 200 and the given cards.\<close>

definition net_200 :: "card list \<Rightarrow> web" where
  "net_200 cs = (\<lambda>_. Response 200 cs)"

definition url_u :: ustr where
  "url_u = ascii ''u''"

text \<open>A cache that holds one entry, written at time 1000.\<close>

definition entry_1000 :: cache_entry where
  "entry_1000 = \<lparr> ts = 1000, data = [rec_a] \<rparr>"

definition state_u :: app_state where
  "state_u = \<lparr> cached_applicants = Map.empty(url_u \<mapsto> entry_1000), submitted = [] \<rparr>"

section \<open>Lemmas\<close>

subsection \<open>Strings\<close>

text \<open>\<open>str_in\<close> decides the occurrence as a contiguous block.\<close>

lemma strip_Nil: "strip [] = []"
  by (simp add: strip_def)

lemma str_in_iff: "str_in n hs \<longleftrightarrow> (\<exists>ps ss. hs = ps @ n @ ss)"
proof (induction hs)
  case Nil
  then show ?case by auto
next
  case (Cons c cs)
  show ?case
  proof (cases "n = take (length n) (c # cs)")
    case True
    then have "c # cs = [] @ n @ drop (length n) (c # cs)"
      by (metis append_Nil append_take_drop_id)
    then show ?thesis using True by (metis str_in.simps(2))
  next
    case False
    have "(\<exists>ps ss. c # cs = ps @ n @ ss) \<longleftrightarrow> (\<exists>ps ss. cs = ps @ n @ ss)"
    proof
      assume "\<exists>ps ss. c # cs = ps @ n @ ss"
      then obtain ps ss where e: "c # cs = ps @ n @ ss" by blast
      show "\<exists>ps ss. cs = ps @ n @ ss"
      proof (cases ps)
        case Nil
        with e have "take (length n) (c # cs) = n" by simp
        with False show ?thesis by simp
      next
        case (Cons p ps')
        with e have "cs = ps' @ n @ ss" by simp
        then show ?thesis by blast
      qed
    next
      assume "\<exists>ps ss. cs = ps @ n @ ss"
      then obtain ps ss where "cs = ps @ n @ ss" by blast
      then have "c # cs = (c # ps) @ n @ ss" by simp
      then show "\<exists>ps ss. c # cs = ps @ n @ ss" by blast
    qed
    with False Cons.IH show ?thesis by simp
  qed
qed

subsection \<open>The renumbering loop\<close>

text \<open>
  The loop writes only \<open>filtered_position\<close>, only on the objects of its list, and numbers a
  list of distinct objects consecutively from its start index.
\<close>

lemma assign_positions_other:
  "a \<notin> set xs \<Longrightarrow> assign_positions h i xs a = h a"
  by (induction xs arbitrary: h i) auto

lemma assign_positions_frame:
  "assign_positions h i xs a = (h a)\<lparr>filtered_position := filtered_position (assign_positions h i xs a)\<rparr>"
proof (induction xs arbitrary: h i)
  case Nil
  show ?case by simp
next
  case (Cons x xs)
  let ?h = "h(x := (h x)\<lparr>filtered_position := i\<rparr>)"
  have "assign_positions ?h (i + 1) xs a
          = (?h a)\<lparr>filtered_position := filtered_position (assign_positions ?h (i + 1) xs a)\<rparr>"
    by (rule Cons.IH)
  then show ?case by (cases "a = x") simp_all
qed

lemma assign_positions_numbers:
  "distinct xs \<Longrightarrow>
   map (\<lambda>a. filtered_position (assign_positions h i xs a)) xs = [i..i + int (length xs) - 1]"
proof (induction xs arbitrary: h i)
  case Nil
  show ?case by simp
next
  case (Cons x xs)
  let ?h = "h(x := (h x)\<lparr>filtered_position := i\<rparr>)"
  from Cons.prems have x: "x \<notin> set xs" and d: "distinct xs" by simp_all
  have "filtered_position (assign_positions ?h (i + 1) xs x) = i"
    using x by (simp add: assign_positions_other)
  moreover have "map (\<lambda>a. filtered_position (assign_positions ?h (i + 1) xs a)) xs
                   = [i + 1..i + 1 + int (length xs) - 1]"
    using d by (rule Cons.IH)
  moreover have "[i..i + int (length (x # xs)) - 1] = i # [i + 1..i + 1 + int (length xs) - 1]"
    by (simp add: upto_rec1 [of i])
  ultimately show ?case by simp
qed

subsection \<open>The first index with a property\<close>

lemma first_index_None: "first_index P xs = None \<longleftrightarrow> list_all (\<lambda>x. \<not> P x) xs"
  by (induction xs) auto

lemma first_index_Some:
  "first_index P xs = Some i \<longleftrightarrow> i < length xs \<and> P (xs ! i) \<and> list_all (\<lambda>x. \<not> P x) (take i xs)"
proof (induction xs arbitrary: i)
  case Nil
  show ?case by simp
next
  case (Cons x xs)
  show ?case
  proof (cases "P x")
    case True
    then show ?thesis by (cases i) auto
  next
    case False
    then show ?thesis using Cons.IH by (cases i) auto
  qed
qed

subsection \<open>The filter stages\<close>

text \<open>Each stage keeps the records that satisfy its predicate of the specification.\<close>

lemma filter_flag_eq: "filter_flag h field want xs = filter (\<lambda>a. flag_ok want (field (h a))) xs"
  by (cases want) (simp_all add: filter_flag_def flag_ok_def)

lemma filter_search_eq:
  "filter_search B h s xs = filter (\<lambda>a. search_ok B s (application_id (h a))) xs"
  by (cases s) (auto simp: filter_search_def search_ok_def strip_Nil)

lemma filter_exam_type_eq:
  "filter_exam_type h e xs = filter (\<lambda>a. exam_type_ok e (exam_type (h a))) xs"
  by (cases e) (auto simp: filter_exam_type_def exam_type_ok_def strip_Nil)

lemma filter_priority_eq:
  "filter_priority h (Some (min lo hi)) (Some (max lo hi)) xs =
     filter (\<lambda>a. priority_ok (Some lo) (Some hi) (priority (h a))) xs"
  by (auto simp: filter_priority_def priority_ok_def intro: filter_cong)

lemma filter_score_eq:
  "filter_score B h field opr val xs = filter (\<lambda>a. score_ok B opr val (field (h a))) xs"
  by (cases opr; cases val) (auto simp: filter_score_def score_ok_def split: option.splits)

subsection \<open>The two outcomes of \<open>filter_applicants\<close>\<close>

text \<open>With a priority bound that is not set, line 111 raises and nothing is written.\<close>

lemma filter_applicants_unset:
  "arg_priority_min args = None \<or> arg_priority_max args = None \<Longrightarrow>
   filter_applicants B h xs args = (Inl TypeError, h)"
  by (cases "arg_priority_min args"; cases "arg_priority_max args")
     (auto simp: filter_applicants_def)

text \<open>With both bounds set, the function returns, and this is what it returns.\<close>

lemma filter_applicants_set:
  assumes "arg_priority_min args = Some lo" "arg_priority_max args = Some hi"
  shows "filter_applicants B h xs args =
     (Inr \<lparr> applicants = survivors B h args xs,
             total_count = length xs,
             filtered_count = length (survivors B h args xs),
             stats = fst (cohort_stats (assign_positions h 1 (survivors B h args xs))
                            (arg_stats_id args) (survivors B h args xs)),
             stats_list = snd (cohort_stats (assign_positions h 1 (survivors B h args xs))
                                 (arg_stats_id args) (survivors B h args xs)) \<rparr>,
      assign_positions h 1 (survivors B h args xs))"
proof -
  have "filter_score B h total_score (arg_total_score_op args) (arg_total_score_val args)
         (filter_score B h exam_score (arg_exam_score_op args) (arg_exam_score_val args)
           (filter_score B h average_score (arg_average_score_op args) (arg_average_score_val args)
             (filter_priority h (Some (min lo hi)) (Some (max lo hi))
               (filter_exam_type h (arg_exam_type args)
                 (filter_search B h (arg_search_id args)
                   (filter_flag h consent (arg_consent args)
                     (filter_flag h vpp (arg_vpp args)
                       (filter_flag h ovp (arg_ovp args) xs))))))))
        = filter (\<lambda>a. matches B args (h a)) xs"
    unfolding filter_flag_eq filter_search_eq filter_exam_type_eq filter_priority_eq
      filter_score_eq filter_filter matches_def assms
    by (rule filter_cong) auto
  then show ?thesis
    by (simp add: filter_applicants_def assms survivors_def Let_def split_beta)
qed

text \<open>The function returns only with both bounds set, and then the result is the closed form.\<close>

lemma filter_applicants_returns:
  assumes "filter_applicants B h xs args = (Inr r, h')"
  shows "\<exists>lo hi. arg_priority_min args = Some lo \<and> arg_priority_max args = Some hi"
proof (cases "arg_priority_min args = None \<or> arg_priority_max args = None")
  case True
  then show ?thesis using assms by (simp add: filter_applicants_unset)
next
  case False
  then show ?thesis by auto
qed

lemma filter_applicants_Inr:
  assumes "filter_applicants B h xs args = (Inr r, h')"
  shows "applicants r = survivors B h args xs"
    and "total_count r = length xs"
    and "filtered_count r = length (survivors B h args xs)"
    and "h' = assign_positions h 1 (survivors B h args xs)"
    and "stats r = fst (cohort_stats h' (arg_stats_id args) (survivors B h args xs))"
    and "stats_list r = snd (cohort_stats h' (arg_stats_id args) (survivors B h args xs))"
proof -
  obtain lo hi where "arg_priority_min args = Some lo" "arg_priority_max args = Some hi"
    using filter_applicants_returns [OF assms] by blast
  from filter_applicants_set [OF this, of B h xs] assms
  have r: "r = \<lparr> applicants = survivors B h args xs,
             total_count = length xs,
             filtered_count = length (survivors B h args xs),
             stats = fst (cohort_stats (assign_positions h 1 (survivors B h args xs))
                            (arg_stats_id args) (survivors B h args xs)),
             stats_list = snd (cohort_stats (assign_positions h 1 (survivors B h args xs))
                                 (arg_stats_id args) (survivors B h args xs)) \<rparr>"
    and h': "h' = assign_positions h 1 (survivors B h args xs)"
    by simp_all
  show "applicants r = survivors B h args xs" by (simp add: r)
  show "total_count r = length xs" by (simp add: r)
  show "filtered_count r = length (survivors B h args xs)" by (simp add: r)
  show "h' = assign_positions h 1 (survivors B h args xs)" by (rule h')
  show "stats r = fst (cohort_stats h' (arg_stats_id args) (survivors B h args xs))"
    by (simp add: r h')
  show "stats_list r = snd (cohort_stats h' (arg_stats_id args) (survivors B h args xs))"
    by (simp add: r h')
qed

subsection \<open>The surviving records\<close>

lemma set_survivors: "set (survivors B h args xs) = {a \<in> set xs. matches B args (h a)}"
  by (simp add: survivors_def)

lemma length_survivors: "length (survivors B h args xs) \<le> length xs"
  by (simp add: survivors_def)

lemma matches_frame: "matches B args (a\<lparr>filtered_position := k\<rparr>) = matches B args a"
  by (simp add: matches_def)

lemma matches_assign: "matches B args (assign_positions h i ys a) = matches B args (h a)"
  by (subst assign_positions_frame) (simp only: matches_frame)

lemma position_assign: "position (assign_positions h i ys a) = position (h a)"
  by (subst assign_positions_frame) simp


lemma survivors_filter_member:
  "filter (\<lambda>a. a \<in> set (survivors B h args xs)) xs = filter (\<lambda>a. matches B args (h a)) xs"
  by (rule filter_cong) (auto simp: set_survivors)

subsection \<open>Running the examples\<close>

lemmas run_defs = filter_applicants_def default_args_def filter_flag_def filter_search_def
  filter_exam_type_def filter_priority_def filter_score_def cohort_stats_def
  heap_abc_def rec_a_def rec_b_def rec_c_def args_10_3_def ascii_def strip_def isspace_def
  str_VE_def str_All_def str_BVI_def

lemma run_abc:
  "filter_applicants ascii_builtins heap_abc [2, 1, 0] args_10_3 =
     (Inr res_abc, snd (filter_applicants ascii_builtins heap_abc [2, 1, 0] args_10_3))"
  by (rule prod_eqI) (simp_all add: run_defs res_abc_def)

lemma run_bc:
  "filter_applicants ascii_builtins heap_abc [2, 1, 0] args_4_10 =
     (Inr res_bc, snd (filter_applicants ascii_builtins heap_abc [2, 1, 0] args_4_10))"
  by (rule prod_eqI) (simp_all add: run_defs res_bc_def args_4_10_def)

lemma heap_bc:
  "snd (filter_applicants ascii_builtins heap_abc [2, 1, 0] args_4_10) 0 = rec_a"
  "snd (filter_applicants ascii_builtins heap_abc [2, 1, 0] args_4_10) 1 = rec_b\<lparr>filtered_position := 1\<rparr>"
  "snd (filter_applicants ascii_builtins heap_abc [2, 1, 0] args_4_10) 2 = rec_c\<lparr>filtered_position := 2\<rparr>"
  by (simp_all add: run_defs args_4_10_def)

lemma run_target_2:
  "filter_applicants ascii_builtins heap_abc [2, 1, 0] (args_target '' 2 '') =
     (Inr \<lparr> applicants = [0, 1, 2], total_count = 3, filtered_count = 3,
             stats = Cohort 1 0 1 0 1, stats_list = [0] \<rparr>,
      snd (filter_applicants ascii_builtins heap_abc [2, 1, 0] (args_target '' 2 '')))"
  by (rule prod_eqI) (simp_all add: run_defs args_target_def)

lemma run_target_9:
  "filter_applicants ascii_builtins heap_abc [2, 1, 0] (args_target ''9'') =
     (Inr \<lparr> applicants = [0, 1, 2], total_count = 3, filtered_count = 3,
             stats = NotFound, stats_list = [] \<rparr>,
      snd (filter_applicants ascii_builtins heap_abc [2, 1, 0] (args_target ''9'')))"
  by (rule prod_eqI) (simp_all add: run_defs args_target_def)

subsection \<open>The exam-type selector and the score comparisons\<close>

lemma matches_exam_type:
  "matches B (args\<lparr>arg_exam_type := e\<rparr>) a
     \<longleftrightarrow> matches B (args\<lparr>arg_exam_type := None\<rparr>) a \<and> exam_type_ok e (exam_type a)"
  by (auto simp: matches_def exam_type_ok_def)

lemma survivors_exam_type:
  "survivors B h (args\<lparr>arg_exam_type := e\<rparr>) xs
     = filter (\<lambda>a. exam_type_ok e (exam_type (h a))) (survivors B h (args\<lparr>arg_exam_type := None\<rparr>) xs)"
  unfolding survivors_def filter_sort filter_filter
  by (subst matches_exam_type) (simp add: conj_commute)

lemma sentinels:
  "strip str_All \<noteq> []" "strip str_BVI \<noteq> []" "str_BVI \<noteq> str_All"
  by (simp_all add: strip_def isspace_def str_All_def str_BVI_def)

lemma exam_type_ok_cases:
  "exam_type_ok (Some str_All) et"
  "exam_type_ok (Some str_BVI) et \<longleftrightarrow> et \<noteq> str_VE"
  "strip e \<noteq> [] \<Longrightarrow> e \<noteq> str_All \<Longrightarrow> e \<noteq> str_BVI \<Longrightarrow> exam_type_ok (Some e) et \<longleftrightarrow> et = e"
  "strip e = [] \<Longrightarrow> exam_type_ok (Some e) et"
  by (simp_all add: exam_type_ok_def sentinels)


subsection \<open>The priority range\<close>

text \<open>
  With both bounds set the range is the same in either order, and the records returned
  have their priority inside it.
\<close>

lemma priority_bounds_normalized:
  "filter_applicants B h xs (args\<lparr>arg_priority_min := Some lo, arg_priority_max := Some hi\<rparr>)
     = filter_applicants B h xs
         (args\<lparr>arg_priority_min := Some (min lo hi), arg_priority_max := Some (max lo hi)\<rparr>)"
  by (simp add: filter_applicants_def Let_def split: sum.split)

lemma priority_range_kept:
  assumes "filter_applicants B h xs (args\<lparr>arg_priority_min := Some lo, arg_priority_max := Some hi\<rparr>)
             = (Inr r, h')"
  shows "list_all (\<lambda>a. min lo hi \<le> priority (h a) \<and> priority (h a) \<le> max lo hi) (applicants r)"
  using filter_applicants_Inr(1) [OF assms]
  by (simp add: list_all_iff set_survivors matches_def priority_ok_def)

section \<open>Claims on the filter engine\<close>

text \<open>
  C1. With both priority bounds set the range is normalised (\<open>priority_bounds_normalized\<close>,
  \<open>priority_range_kept\<close>). With a bound that is not set the call does not filter: on the
  three example records, with no bound, with only the lower and with only the upper bound
  set, line 111 raises \<^verbatim>\<open>TypeError\<close> and the store is unchanged.
\<close>

theorem priority_bound_unset_raises:
  "filter_applicants ascii_builtins heap_abc [2, 1, 0] default_args = (Inl TypeError, heap_abc)
   \<and> filter_applicants ascii_builtins heap_abc [2, 1, 0] (default_args\<lparr>arg_priority_min := Some 3\<rparr>)
       = (Inl TypeError, heap_abc)
   \<and> filter_applicants ascii_builtins heap_abc [2, 1, 0] (default_args\<lparr>arg_priority_max := Some 10\<rparr>)
       = (Inl TypeError, heap_abc)"
  by (simp add: run_defs)

text \<open>
  C2. Whenever \<open>filter_applicants\<close> returns a result: the filtered count is at most the
  total count, the total count is the length of the input list, the filtered count is
  the length of the returned list, and every record of the returned list, read in the
  store the call leaves, satisfies every predicate of the specification.
\<close>

theorem filter_applicants_counts_and_predicates:
  assumes "filter_applicants B h xs args = (Inr r, h')"
  shows "filtered_count r \<le> total_count r \<and> total_count r = length xs
       \<and> filtered_count r = length (applicants r)
       \<and> list_all (\<lambda>a. matches B args (h' a)) (applicants r)"
proof -
  note facts = filter_applicants_Inr [OF assms]
  have "list_all (\<lambda>a. matches B args (h' a)) (survivors B h args xs)"
    unfolding facts(4) by (simp add: list_all_iff matches_assign set_survivors)
  then show ?thesis
    by (simp add: facts(1,2,3) length_survivors)
qed

text \<open>The three example records, all inside the range 3..10.\<close>

theorem filter_applicants_counts_and_predicates_witness:
  "filter_applicants ascii_builtins heap_abc [2, 1, 0] args_10_3 =
     (Inr res_abc, snd (filter_applicants ascii_builtins heap_abc [2, 1, 0] args_10_3))
   \<and> filtered_count res_abc \<le> total_count res_abc \<and> total_count res_abc = 3
   \<and> filtered_count res_abc = length (applicants res_abc)
   \<and> list_all (\<lambda>a. matches ascii_builtins args_10_3
                     (snd (filter_applicants ascii_builtins heap_abc [2, 1, 0] args_10_3) a))
        (applicants res_abc)"
  using filter_applicants_counts_and_predicates [OF run_abc] run_abc by simp

text \<open>
  C3, amended. Whenever \<open>filter_applicants\<close> returns a result, on any input list: the
  returned list is sorted ascending by position, and it is a permutation of the surviving
  records that keeps records of equal position in their input order (the sort is stable).
  When moreover the input list holds no object twice, the \<open>filtered_position\<close> fields of
  the elements of the returned list, read in the store the call leaves, are 1, 2, ...,
  filtered count, in the order of the list, whatever the fields held before the call.
\<close>

theorem filter_applicants_sorted_and_numbered:
  assumes "filter_applicants B h xs args = (Inr r, h')"
  shows "sorted (map (\<lambda>a. position (h' a)) (applicants r))
       \<and> mset (applicants r) = mset (filter (\<lambda>a. a \<in> set (applicants r)) xs)
       \<and> (\<forall>k. filter (\<lambda>a. position (h' a) = k) (applicants r)
               = filter (\<lambda>a. position (h' a) = k) (filter (\<lambda>a. a \<in> set (applicants r)) xs))
       \<and> (distinct xs \<longrightarrow>
            map (\<lambda>a. filtered_position (h' a)) (applicants r) = [1..int (filtered_count r)])"
proof -
  note facts = filter_applicants_Inr [OF assms]
  let ?ys = "survivors B h args xs"
  have pos: "position (h' a) = position (h a)" for a
    unfolding facts(4) by (simp add: position_assign)
  have s: "sorted (map (\<lambda>a. position (h a)) ?ys)"
    by (simp add: survivors_def)
  have m: "mset ?ys = mset (filter (\<lambda>a. a \<in> set ?ys) xs)"
    unfolding survivors_filter_member by (simp add: survivors_def)
  have st: "filter (\<lambda>a. position (h a) = k) ?ys
              = filter (\<lambda>a. position (h a) = k) (filter (\<lambda>a. a \<in> set ?ys) xs)" for k
    unfolding survivors_filter_member by (simp add: survivors_def sort_key_stable)
  have n: "map (\<lambda>a. filtered_position (h' a)) ?ys = [1..int (length ?ys)]" if "distinct xs"
  proof -
    from that have "distinct ?ys" by (simp add: survivors_def)
    then show ?thesis
      unfolding facts(4) using assign_positions_numbers [of ?ys h 1] by simp
  qed
  show ?thesis
    unfolding pos facts(1) facts(3) using s m st n by blast
qed

text \<open>
  The three example records given in the order 2, 1, 0 come out as 0, 1, 2, sorted by
  position and numbered 1, 2, 3. The list that holds the object at reference 0 twice
  comes out sorted as well.
\<close>

theorem filter_applicants_sorted_and_numbered_witness:
  "filter_applicants ascii_builtins heap_abc [2, 1, 0] args_10_3 =
     (Inr res_abc, snd (filter_applicants ascii_builtins heap_abc [2, 1, 0] args_10_3))
   \<and> distinct [2, 1, 0 :: ref]
   \<and> applicants res_abc = [0, 1, 2]
   \<and> sorted (map (\<lambda>a. position
                (snd (filter_applicants ascii_builtins heap_abc [2, 1, 0] args_10_3) a))
        (applicants res_abc))
   \<and> map (\<lambda>a. filtered_position
               (snd (filter_applicants ascii_builtins heap_abc [2, 1, 0] args_10_3) a))
        (applicants res_abc) = [1, 2, 3]
   \<and> filter_applicants ascii_builtins heap_abc [0, 0] args_10_3 =
       (Inr \<lparr> applicants = [0, 0], total_count = 2, filtered_count = 2, stats = NoStats,
               stats_list = [] \<rparr>,
        snd (filter_applicants ascii_builtins heap_abc [0, 0] args_10_3))
   \<and> sorted (map (\<lambda>a. position
                (snd (filter_applicants ascii_builtins heap_abc [0, 0] args_10_3) a)) [0, 0])"
proof -
  have d: "distinct [2, 1, 0 :: ref]" by simp
  have u: "[1..int (filtered_count res_abc)] = [1, 2, 3]"
    by (simp add: res_abc_def upto_rec1)
  have e: "filter_applicants ascii_builtins heap_abc [0, 0] args_10_3 =
       (Inr \<lparr> applicants = [0, 0], total_count = 2, filtered_count = 2, stats = NoStats,
               stats_list = [] \<rparr>,
        snd (filter_applicants ascii_builtins heap_abc [0, 0] args_10_3))"
    by (rule prod_eqI) (simp_all add: run_defs)
  show ?thesis
    using filter_applicants_sorted_and_numbered [OF run_abc]
      filter_applicants_sorted_and_numbered [OF e] run_abc e d u
    by (simp add: res_abc_def)
qed

text \<open>
  C3 as stated, for every input list, fails in its numbering on a list that holds one
  object twice: the loop writes 1 and then 2 into the same object, and both elements of
  the returned list read 2.
\<close>

theorem filter_applicants_repeated_object_counterexample:
  "fst (filter_applicants ascii_builtins heap_abc [0, 0] args_10_3) =
     Inr \<lparr> applicants = [0, 0], total_count = 2, filtered_count = 2, stats = NoStats,
            stats_list = [] \<rparr>
   \<and> map (\<lambda>a. filtered_position (snd (filter_applicants ascii_builtins heap_abc [0, 0] args_10_3) a))
        [0, 0] = [2, 2]
   \<and> [2, 2] \<noteq> [1 .. (2::int)]"
  by (simp add: run_defs upto_rec1)

text \<open>
  C4. Relative to the call with no exam-type selector, which returns \<open>r0\<close>: the selector
  "All" gives the same outcome; the selector "BVI" returns the records of \<open>r0\<close> whose exam
  type is not the entrance-exam category, in the same order; any other selector that is
  not blank returns the records of \<open>r0\<close> whose exam type equals it.
\<close>

theorem exam_type_selector:
  assumes "filter_applicants B h xs (args\<lparr>arg_exam_type := None\<rparr>) = (Inr r0, h0)"
  shows "filter_applicants B h xs (args\<lparr>arg_exam_type := Some str_All\<rparr>) = (Inr r0, h0)
       \<and> (\<exists>r h1. filter_applicants B h xs (args\<lparr>arg_exam_type := Some str_BVI\<rparr>) = (Inr r, h1)
                 \<and> applicants r = filter (\<lambda>a. exam_type (h a) \<noteq> str_VE) (applicants r0))
       \<and> (\<forall>e. strip e \<noteq> [] \<and> e \<noteq> str_All \<and> e \<noteq> str_BVI \<longrightarrow>
             (\<exists>r h1. filter_applicants B h xs (args\<lparr>arg_exam_type := Some e\<rparr>) = (Inr r, h1)
                 \<and> applicants r = filter (\<lambda>a. exam_type (h a) = e) (applicants r0)))"
proof -
  obtain lo hi where b: "arg_priority_min args = Some lo" "arg_priority_max args = Some hi"
    using filter_applicants_returns [OF assms] by auto
  have set: "filter_applicants B h xs (args\<lparr>arg_exam_type := e\<rparr>) =
     (Inr \<lparr> applicants = survivors B h (args\<lparr>arg_exam_type := e\<rparr>) xs,
             total_count = length xs,
             filtered_count = length (survivors B h (args\<lparr>arg_exam_type := e\<rparr>) xs),
             stats = fst (cohort_stats (assign_positions h 1 (survivors B h (args\<lparr>arg_exam_type := e\<rparr>) xs))
                            (arg_stats_id args) (survivors B h (args\<lparr>arg_exam_type := e\<rparr>) xs)),
             stats_list = snd (cohort_stats (assign_positions h 1 (survivors B h (args\<lparr>arg_exam_type := e\<rparr>) xs))
                                 (arg_stats_id args) (survivors B h (args\<lparr>arg_exam_type := e\<rparr>) xs)) \<rparr>,
      assign_positions h 1 (survivors B h (args\<lparr>arg_exam_type := e\<rparr>) xs))" for e
    using filter_applicants_set [of "args\<lparr>arg_exam_type := e\<rparr>" lo hi B h xs] b by simp
  have r0: "applicants r0 = survivors B h (args\<lparr>arg_exam_type := None\<rparr>) xs"
    using filter_applicants_Inr(1) [OF assms] .
  have all: "survivors B h (args\<lparr>arg_exam_type := Some str_All\<rparr>) xs
               = survivors B h (args\<lparr>arg_exam_type := None\<rparr>) xs"
    by (subst survivors_exam_type) (simp add: exam_type_ok_cases)
  have 1: "filter_applicants B h xs (args\<lparr>arg_exam_type := Some str_All\<rparr>) = (Inr r0, h0)"
    using assms unfolding set all .
  have 2: "\<exists>r h1. filter_applicants B h xs (args\<lparr>arg_exam_type := Some str_BVI\<rparr>) = (Inr r, h1)
                 \<and> applicants r = filter (\<lambda>a. exam_type (h a) \<noteq> str_VE) (applicants r0)"
    unfolding set r0 by (simp add: survivors_exam_type [where e = "Some str_BVI"] exam_type_ok_cases)
  have 3: "\<exists>r h1. filter_applicants B h xs (args\<lparr>arg_exam_type := Some e\<rparr>) = (Inr r, h1)
                 \<and> applicants r = filter (\<lambda>a. exam_type (h a) = e) (applicants r0)"
    if "strip e \<noteq> []" "e \<noteq> str_All" "e \<noteq> str_BVI" for e
    unfolding set r0 using that
    by (simp add: survivors_exam_type [where e = "Some e"] exam_type_ok_cases)
  show ?thesis using 1 2 3 by blast
qed


text \<open>
  On the three example records: "All" keeps all three, "BVI" excludes the record of the
  entrance-exam category, and the category itself as selector keeps only that record.
\<close>

theorem exam_type_selector_witness:
  "filter_applicants ascii_builtins heap_abc [2, 1, 0] (args_10_3\<lparr>arg_exam_type := None\<rparr>) =
     (Inr res_abc,
      snd (filter_applicants ascii_builtins heap_abc [2, 1, 0] (args_10_3\<lparr>arg_exam_type := None\<rparr>)))
   \<and> filter_applicants ascii_builtins heap_abc [2, 1, 0] (args_10_3\<lparr>arg_exam_type := Some str_All\<rparr>) =
     (Inr res_abc,
      snd (filter_applicants ascii_builtins heap_abc [2, 1, 0] (args_10_3\<lparr>arg_exam_type := None\<rparr>)))
   \<and> fst (filter_applicants ascii_builtins heap_abc [2, 1, 0]
            (args_10_3\<lparr>arg_exam_type := Some str_BVI\<rparr>)) =
       Inr \<lparr> applicants = [1, 2], total_count = 3, filtered_count = 2, stats = NoStats,
              stats_list = [] \<rparr>
   \<and> fst (filter_applicants ascii_builtins heap_abc [2, 1, 0]
            (args_10_3\<lparr>arg_exam_type := Some str_VE\<rparr>)) =
       Inr \<lparr> applicants = [0], total_count = 3, filtered_count = 1, stats = NoStats,
              stats_list = [] \<rparr>"
proof -
  have e: "filter_applicants ascii_builtins heap_abc [2, 1, 0] (args_10_3\<lparr>arg_exam_type := None\<rparr>) =
     (Inr res_abc,
      snd (filter_applicants ascii_builtins heap_abc [2, 1, 0] (args_10_3\<lparr>arg_exam_type := None\<rparr>)))"
    by (rule prod_eqI) (simp_all add: run_defs res_abc_def)
  have b: "fst (filter_applicants ascii_builtins heap_abc [2, 1, 0]
            (args_10_3\<lparr>arg_exam_type := Some str_BVI\<rparr>)) =
       Inr \<lparr> applicants = [1, 2], total_count = 3, filtered_count = 2, stats = NoStats,
              stats_list = [] \<rparr>"
    by (simp add: run_defs)
  have v: "fst (filter_applicants ascii_builtins heap_abc [2, 1, 0]
            (args_10_3\<lparr>arg_exam_type := Some str_VE\<rparr>)) =
       Inr \<lparr> applicants = [0], total_count = 3, filtered_count = 1, stats = NoStats,
              stats_list = [] \<rparr>"
    by (simp add: run_defs)
  show ?thesis
    using exam_type_selector [OF e] e b v by blast
qed

text \<open>
  C5. Whenever \<open>filter_applicants\<close> returns with a target id that is not blank after
  trimming: if no record of the returned list has the trimmed target as application id,
  the statistics are the not-found case (and not a cohort of zeros); if the first such
  record is at index \<open>i\<close>, the statistics are the cohort of the records before index \<open>i\<close>:
  their number \<open>i\<close>, how many of them are outside the entrance-exam category, how many
  have \<open>ovp\<close>, how many have \<open>consent\<close>, and the record at index \<open>i\<close> itself.
\<close>

theorem cohort_before_target:
  assumes "filter_applicants B h xs args = (Inr r, h')"
    and "arg_stats_id args = Some t" and "strip t \<noteq> []"
  shows "(list_all (\<lambda>a. application_id (h' a) \<noteq> strip t) (applicants r)
            \<longrightarrow> stats r = NotFound \<and> stats_list r = [])
       \<and> (\<forall>i. i < length (applicants r)
               \<and> application_id (h' (applicants r ! i)) = strip t
               \<and> list_all (\<lambda>a. application_id (h' a) \<noteq> strip t) (take i (applicants r))
            \<longrightarrow> stats r =
                  Cohort i
                    (length (filter (\<lambda>a. exam_type (h' a) \<noteq> str_VE) (take i (applicants r))))
                    (length (filter (\<lambda>a. ovp (h' a)) (take i (applicants r))))
                    (length (filter (\<lambda>a. consent (h' a)) (take i (applicants r))))
                    (applicants r ! i)
                \<and> stats_list r = take i (applicants r))"
proof -
  note facts = filter_applicants_Inr [OF assms(1)]
  let ?ys = "applicants r"
  let ?P = "\<lambda>a. application_id (h' a) = strip t"
  have t: "t \<noteq> []" using assms(3) by (auto simp: strip_Nil)
  have c: "(stats r, stats_list r) = cohort_stats h' (Some t) ?ys"
    by (simp add: facts(5,6) facts(1) assms(2))
  have nf: "stats r = NotFound \<and> stats_list r = []" if "list_all (\<lambda>a. \<not> ?P a) ?ys"
  proof -
    from that have "first_index ?P ?ys = None" by (simp add: first_index_None)
    with c t assms(3) show ?thesis by (simp add: cohort_stats_def)
  qed
  have fd: "stats r =
              Cohort i
                (length (filter (\<lambda>a. exam_type (h' a) \<noteq> str_VE) (take i ?ys)))
                (length (filter (\<lambda>a. ovp (h' a)) (take i ?ys)))
                (length (filter (\<lambda>a. consent (h' a)) (take i ?ys)))
                (?ys ! i)
            \<and> stats_list r = take i ?ys"
    if "i < length ?ys" "?P (?ys ! i)" "list_all (\<lambda>a. \<not> ?P a) (take i ?ys)" for i
  proof -
    from that have "first_index ?P ?ys = Some i" by (simp add: first_index_Some)
    with c t assms(3) that(1) show ?thesis by (simp add: cohort_stats_def Let_def)
  qed
  show ?thesis using nf fd by blast
qed

text \<open>
  The returned order is the records with the ids "1", "2", "3". The target " 2 " is found
  at index 1, with one record before it, which is in the entrance-exam category, has
  \<open>ovp\<close> and no \<open>consent\<close>; the target "9" is not found.
\<close>

theorem cohort_before_target_witness:
  "filter_applicants ascii_builtins heap_abc [2, 1, 0] (args_target '' 2 '') =
     (Inr \<lparr> applicants = [0, 1, 2], total_count = 3, filtered_count = 3,
             stats = Cohort 1 0 1 0 1, stats_list = [0] \<rparr>,
      snd (filter_applicants ascii_builtins heap_abc [2, 1, 0] (args_target '' 2 '')))
   \<and> arg_stats_id (args_target '' 2 '') = Some (ascii '' 2 '')
   \<and> strip (ascii '' 2 '') = ascii ''2''
   \<and> ascii ''2'' \<noteq> []
   \<and> filter_applicants ascii_builtins heap_abc [2, 1, 0] (args_target ''9'') =
     (Inr \<lparr> applicants = [0, 1, 2], total_count = 3, filtered_count = 3,
             stats = NotFound, stats_list = [] \<rparr>,
      snd (filter_applicants ascii_builtins heap_abc [2, 1, 0] (args_target ''9'')))
   \<and> strip (ascii ''9'') \<noteq> []"
proof -
  have a: "arg_stats_id (args_target '' 2 '') = Some (ascii '' 2 '')"
          "arg_stats_id (args_target ''9'') = Some (ascii ''9'')"
    by (simp_all add: args_target_def)
  have s: "strip (ascii '' 2 '') = ascii ''2''" "strip (ascii ''9'') \<noteq> []"
    by (simp_all add: strip_def ascii_def isspace_def)
  then have s': "strip (ascii '' 2 '') \<noteq> []" by (simp add: ascii_def)
  show ?thesis
    using cohort_before_target [OF run_target_2 a(1) s']
      cohort_before_target [OF run_target_9 a(2) s(2)]
      run_target_2 run_target_9 a s
    by (simp add: ascii_def)
qed



text \<open>
  C10. Whatever the call does, every object of the store keeps every field but
  \<open>filtered_position\<close>. When the call raises, the store is unchanged. When it returns, the
  objects outside the returned list are unchanged, the returned list holds no object
  more often than the input list does, and holds none twice when the input list holds
  none twice.
\<close>

theorem filter_applicants_frame:
  assumes "filter_applicants B h xs args = (res, h')"
  shows "(\<forall>a. (h' a)\<lparr>filtered_position := filtered_position (h a)\<rparr> = h a)
       \<and> (case res of
            Inl e \<Rightarrow> h' = h
          | Inr r \<Rightarrow> (\<forall>a. a \<notin> set (applicants r) \<longrightarrow> h' a = h a)
                     \<and> mset (applicants r) \<subseteq># mset xs
                     \<and> (distinct xs \<longrightarrow> distinct (applicants r)))"
proof (cases res)
  case (Inl e)
  have "arg_priority_min args = None \<or> arg_priority_max args = None"
  proof (rule ccontr)
    assume "\<not> ?thesis"
    then obtain lo hi where "arg_priority_min args = Some lo" "arg_priority_max args = Some hi"
      by auto
    from filter_applicants_set [OF this, of B h xs] assms Inl show False by simp
  qed
  then have "h' = h" using assms by (simp add: filter_applicants_unset)
  then show ?thesis using Inl by simp
next
  case (Inr r)
  note facts = filter_applicants_Inr [OF assms [unfolded Inr]]
  let ?ys = "survivors B h args xs"
  have f: "(h' a)\<lparr>filtered_position := filtered_position (h a)\<rparr> = h a" for a
    unfolding facts(4) by (subst assign_positions_frame) simp
  have o: "a \<notin> set (applicants r) \<longrightarrow> h' a = h a" for a
    unfolding facts(1) facts(4) by (simp add: assign_positions_other)
  have m: "mset (applicants r) \<subseteq># mset xs"
    unfolding facts(1) by (simp add: survivors_def)
  have d: "distinct xs \<longrightarrow> distinct (applicants r)"
    unfolding facts(1) by (simp add: survivors_def)
  show ?thesis using Inr f o m d by simp
qed

text \<open>
  With the range 4..10: the record at reference 0 is excluded and unchanged; the record
  at reference 2 is renumbered from 9 to 2 and is otherwise as before.
\<close>

theorem filter_applicants_frame_witness:
  "filter_applicants ascii_builtins heap_abc [2, 1, 0] args_4_10 =
     (Inr res_bc, snd (filter_applicants ascii_builtins heap_abc [2, 1, 0] args_4_10))
   \<and> applicants res_bc = [1, 2]
   \<and> snd (filter_applicants ascii_builtins heap_abc [2, 1, 0] args_4_10) 0 = heap_abc 0
   \<and> (snd (filter_applicants ascii_builtins heap_abc [2, 1, 0] args_4_10) 2)
        \<lparr>filtered_position := 9\<rparr> = heap_abc 2
   \<and> filtered_position (snd (filter_applicants ascii_builtins heap_abc [2, 1, 0] args_4_10) 2) = 2
   \<and> mset (applicants res_bc) \<subseteq># mset [2, 1, 0]
   \<and> distinct (applicants res_bc)"
proof -
  have "filtered_position (heap_abc 2) = 9" "(0::ref) \<notin> set (applicants res_bc)"
    by (simp_all add: heap_abc_def rec_c_def res_bc_def)
  then show ?thesis
    using filter_applicants_frame [OF run_bc] run_bc heap_bc
    by (simp add: res_bc_def heap_abc_def rec_c_def)
qed

section \<open>Lemmas on the extractor\<close>

text \<open>
  The loop of \<^verbatim>\<open>app.py\<close> returns the records of the cards that parse, in document order,
  and drops the others.
\<close>

lemma collect_cards_eq:
  "collect_cards B cs acc = acc @ List.map_filter (parse_card B) cs"
  by (induction cs arbitrary: acc) (auto simp: List.map_filter_simps split: option.splits)

text \<open>
  A request that raises and a response with an error status make both extractors raise.
\<close>

lemma parse_itmo_rating_fetch_failure:
  "net url = ConnectionFailed \<Longrightarrow>
     parse_itmo_rating B net url = Inl (ParsingError RequestException)"
  "net url = Response code cs \<Longrightarrow> 400 \<le> code \<Longrightarrow> code < 600 \<Longrightarrow>
     parse_itmo_rating B net url = Inl (ParsingError (HTTPError code))"
  by (simp_all add: parse_itmo_rating_def)

lemma main_parse_itmo_rating_fetch_failure:
  "net url = ConnectionFailed \<Longrightarrow>
     main_parse_itmo_rating B net url fo fv fc = Inl (ParsingError RequestException)"
  "net url = Response code cs \<Longrightarrow> 400 \<le> code \<Longrightarrow> code < 600 \<Longrightarrow>
     main_parse_itmo_rating B net url fo fv fc = Inl (ParsingError (HTTPError code))"
  by (simp_all add: main_parse_itmo_rating_def)

text \<open>The extractor of \<^verbatim>\<open>main.py\<close> raises on a page without cards.\<close>

lemma main_parse_itmo_rating_no_cards:
  "net url = Response code [] \<Longrightarrow>
     main_parse_itmo_rating B net url fo fv fc =
       Inl (ParsingError (if 400 \<le> code \<and> code < 600 then HTTPError code else NoCardsFound))"
  by (simp add: main_parse_itmo_rating_def)

text \<open>
  On a page that is retrieved, the extractor of \<^verbatim>\<open>app.py\<close> returns exactly the records of
  the cards that parse; the one of \<^verbatim>\<open>main.py\<close> raises as soon as one card does not.
\<close>

lemma parse_itmo_rating_isolates_cards:
  assumes "net url = Response code cs" "\<not> (400 \<le> code \<and> code < 600)"
  shows "parse_itmo_rating B net url = Inr (List.map_filter (parse_card B) cs)"
  using assms by (simp add: parse_itmo_rating_def collect_cards_eq)

lemma main_parse_cards_None:
  "main_parse_cards B cs = None \<longleftrightarrow> list_ex (\<lambda>c. main_parse_applicant_card B c = None) cs"
  by (induction cs) (auto split: option.splits)

lemma main_parse_itmo_rating_malformed_card:
  assumes "net url = Response code cs" "\<not> (400 \<le> code \<and> code < 600)"
    and "list_ex (\<lambda>c. main_parse_applicant_card B c = None) cs"
  shows "main_parse_itmo_rating B net url fo fv fc = Inl (ParsingError CardError)"
proof -
  from assms(3) have "cs \<noteq> []" by auto
  moreover from assms(3) have "main_parse_cards B cs = None" by (simp add: main_parse_cards_None)
  ultimately show ?thesis using assms(1,2) by (simp add: main_parse_itmo_rating_def)
qed

subsection \<open>Running the example cards\<close>

lemmas card_defs = parse_card_def main_parse_applicant_card_def card_at_def bad_card_def
  rec_at_def is_yes_def ascii_builtins_def digits_value_def ascii_def strip_def isspace_def
  str_da_def str_VE_def

lemma parse_card_at:
  "parse_card ascii_builtins (card_at ''1'') = Some (rec_at 1)"
  "parse_card ascii_builtins (card_at ''2'') = Some (rec_at 2)"
  "parse_card ascii_builtins (card_at ''3'') = Some (rec_at 3)"
  "parse_card ascii_builtins (card_at ''5'') = Some (rec_at 5)"
  "parse_card ascii_builtins (card_at ''6'') = Some (rec_at 6)"
  "parse_card ascii_builtins bad_card = None"
  by (simp_all add: card_defs)

lemma parse_itmo_rating_six_cards:
  "parse_itmo_rating ascii_builtins (net_200 six_cards) url_u =
     Inr [rec_at 1, rec_at 2, rec_at 3, rec_at 5, rec_at 6]"
  by (simp add: parse_itmo_rating_def net_200_def six_cards_def parse_card_at)

section \<open>Claims on the extractor and the cache\<close>

text \<open>
  C6. Both extractors raise when the page cannot be retrieved
  (\<open>parse_itmo_rating_fetch_failure\<close>, \<open>main_parse_itmo_rating_fetch_failure\<close>), and the one
  of \<^verbatim>\<open>main.py\<close> raises on a page without cards (\<open>main_parse_itmo_rating_no_cards\<close>). The
  one of \<^verbatim>\<open>app.py\<close> has no such test: on a page retrieved with status 200 and no card it
  returns the empty list.
\<close>

theorem parse_itmo_rating_no_cards_returns_empty:
  "parse_itmo_rating ascii_builtins (net_200 []) url_u = Inr []"
  by (simp add: parse_itmo_rating_def net_200_def)

text \<open>
  C7. The extractor of \<^verbatim>\<open>app.py\<close> skips the cards that do not parse
  (\<open>parse_itmo_rating_isolates_cards\<close>; on the six example cards it returns the five
  records, \<open>parse_itmo_rating_six_cards\<close>). The one of \<^verbatim>\<open>main.py\<close> parses the cards in a
  list comprehension with no handler: on the same six cards, five well-formed and one
  whose priority is not a number, it raises.
\<close>

theorem main_parse_itmo_rating_malformed_card_raises:
  "main_parse_itmo_rating ascii_builtins (net_200 six_cards) url_u None None None
     = Inl (ParsingError CardError)"
proof -
  have "main_parse_applicant_card ascii_builtins bad_card = None"
    by (simp add: card_defs)
  then have "list_ex (\<lambda>c. main_parse_applicant_card ascii_builtins c = None) six_cards"
    by (simp add: six_cards_def)
  then show ?thesis
    by (intro main_parse_itmo_rating_malformed_card [where code = 200 and cs = six_cards])
       (simp_all add: net_200_def)
qed

text \<open>
  C9. With an entry for the URL in the cache: when its age is below the TTL, the cached
  records are returned and the state is unchanged; when its age is the TTL or more, the
  cached records are returned and the state changes only by one more submitted refresh
  for the URL, whatever the network would answer; a refresh whose extraction raises
  leaves the state as it is, and a worker that runs it only takes it off the queue, so
  the entry stays.
\<close>

theorem cache_hit_and_failed_refresh:
  assumes "cached_applicants st url = Some entry"
  shows "(now - ts entry < CACHE_TTL \<longrightarrow>
            get_applicants_with_cache B net now url st = (Inr (data entry), st))
       \<and> (CACHE_TTL \<le> now - ts entry \<longrightarrow>
            get_applicants_with_cache B net now url st
              = (Inr (data entry), st\<lparr>submitted := submitted st @ [url]\<rparr>))
       \<and> (\<forall>clock e. parse_itmo_rating B net url = Inl e \<longrightarrow>
            parse_and_cache B net clock url st = st)
       \<and> (\<forall>clock e rest. parse_itmo_rating B net url = Inl e \<and> submitted st = url # rest \<longrightarrow>
            run_submitted B net clock st = st\<lparr>submitted := rest\<rparr>)"
  using assms
  by (auto simp: get_applicants_with_cache_def parse_and_cache_def run_submitted_def)

text \<open>
  The entry written at time 1000 is fresh at 1299 and stale at 1300, the TTL being 300;
  the refresh submitted then fails on a network that is down, and the cache state is as
  before.
\<close>

theorem cache_hit_and_failed_refresh_witness:
  "cached_applicants state_u url_u = Some entry_1000
   \<and> get_applicants_with_cache ascii_builtins (net_200 six_cards) 1299 url_u state_u
       = (Inr [rec_a], state_u)
   \<and> get_applicants_with_cache ascii_builtins (net_200 six_cards) 1300 url_u state_u
       = (Inr [rec_a], state_u\<lparr>submitted := [url_u]\<rparr>)
   \<and> parse_itmo_rating ascii_builtins (\<lambda>_. ConnectionFailed) url_u
       = Inl (ParsingError RequestException)
   \<and> run_submitted ascii_builtins (\<lambda>_. ConnectionFailed) 1301 (state_u\<lparr>submitted := [url_u]\<rparr>)
       = state_u"
proof -
  have c: "cached_applicants state_u url_u = Some entry_1000"
          "cached_applicants (state_u\<lparr>submitted := [url_u]\<rparr>) url_u = Some entry_1000"
    by (simp_all add: state_u_def)
  have f: "parse_itmo_rating ascii_builtins (\<lambda>_. ConnectionFailed) url_u
             = Inl (ParsingError RequestException)"
    by (simp add: parse_itmo_rating_def)
  have t: "(1299::real) - ts entry_1000 < CACHE_TTL" "CACHE_TTL \<le> (1300::real) - ts entry_1000"
    by (simp_all add: entry_1000_def CACHE_TTL_def)
  have s: "submitted state_u = []" "state_u\<lparr>submitted := []\<rparr> = state_u"
    by (simp_all add: state_u_def)
  show ?thesis
    using cache_hit_and_failed_refresh [OF c(1), of 1299 ascii_builtins "net_200 six_cards"]
      cache_hit_and_failed_refresh [OF c(1), of 1300 ascii_builtins "net_200 six_cards"]
      cache_hit_and_failed_refresh [OF c(2), of 1301 ascii_builtins "\<lambda>_. ConnectionFailed"]
      c f t s
    by (simp add: entry_1000_def)
qed

end
